theory Spec2Isabelle
  imports Main "HOL-Library.Sublist"
begin

section \<open>The open-wa driver server: request values, session and transport\<close>

text \<open>
  The driver server (\<^verbatim>\<open>server.js\<close>) keeps two module variables, \<^verbatim>\<open>client\<close> and
  \<^verbatim>\<open>clientReady\<close>, and answers five HTTP routes. Every handler reads the parsed JSON
  body, makes at most one call on the open-wa client and sends one JSON response.

  A parsed JSON value. \<open>JUndefined\<close> is what reading a missing property gives.
  Numbers are carried as integers: the handlers never compute with a number of the
  body, they only test it for zero and hand it on. Strings are byte lists; the
  handlers only look for the ASCII characters \<^verbatim>\<open>@\<close>, \<^verbatim>\<open>0\<close>..\<^verbatim>\<open>9\<close> and the suffix
  \<^verbatim>\<open>@g.us\<close>, none of which occurs inside a multi-byte sequence. An object is the list
  of its own properties.
\<close>

datatype json =
    JUndefined
  | JNull
  | JBool bool
  | JNum int
  | JStr string
  | JArr "json list"
  | JObj "(string \<times> json) list"

text \<open>JavaScript truthiness, as \<^verbatim>\<open>!x\<close> tests it.\<close>

fun truthy :: "json \<Rightarrow> bool" where
  "truthy JUndefined = False"
| "truthy JNull = False"
| "truthy (JBool b) = b"
| "truthy (JNum n) = (n \<noteq> 0)"
| "truthy (JStr s) = (s \<noteq> [])"
| "truthy (JArr xs) = True"
| "truthy (JObj kvs) = True"

text \<open>
  Reading a named property of the request body, as the destructuring
  \<^verbatim>\<open>const { contact, message } = req.body\<close> does once it has a value to read from:
  only an object has own properties of these names, and neither an array nor a
  primitive inherits one.

  A body the JSON parser has parsed is an object or an array (\<open>parsed_body\<close>). For a
  request without such a body, \<^verbatim>\<open>req.body\<close> is the empty object under some versions of
  the parser and undefined under others, and destructuring undefined or null throws a
  TypeError on lines 95 and 117, before the handler's \<^verbatim>\<open>try\<close>. \<open>property\<close> does not
  describe that throw: where an answer is derived below from the fields of the body,
  the body is assumed parsed, outright or through a field that it holds
  (\<open>property_defined_parsed\<close>).
\<close>

fun property :: "json \<Rightarrow> string \<Rightarrow> json" where
  "property (JObj kvs) k = (case map_of kvs k of Some v \<Rightarrow> v | None \<Rightarrow> JUndefined)"
| "property _ k = JUndefined"

fun parsed_body :: "json \<Rightarrow> bool" where
  "parsed_body (JObj kvs) = True"
| "parsed_body (JArr xs) = True"
| "parsed_body _ = False"

text \<open>
  \<^verbatim>\<open>x.length\<close> for a truthy value: the element count of an array, the length of a
  string, the own property of an object, undefined for a number or a boolean.
\<close>

fun js_length :: "json \<Rightarrow> json" where
  "js_length (JArr xs) = JNum (int (length xs))"
| "js_length (JStr s) = JNum (int (length s))"
| "js_length (JObj kvs) = property (JObj kvs) ''length''"
| "js_length _ = JUndefined"

text \<open>The character class \<^verbatim>\<open>\d\<close> of a regular expression without the unicode flag.\<close>

definition digit :: "char \<Rightarrow> bool" where
  "digit c = (c \<in> set ''0123456789'')"

text \<open>\<^verbatim>\<open>s.replace(/[^\d]/g, '')\<close>: every character that is not a digit is removed.\<close>

definition strip_non_digits :: "string \<Rightarrow> string" where
  "strip_non_digits s = filter digit s"

text \<open>\<^verbatim>\<open>s.endsWith(x)\<close> on strings.\<close>

definition endsWith :: "string \<Rightarrow> string \<Rightarrow> bool" where
  "endsWith s x = suffix x s"

text \<open>
  The decimal text of a number, as the template literal \<^verbatim>\<open>`opt${i + 1}`\<close> produces it
  for an array index.
\<close>

definition digit_char :: "nat \<Rightarrow> char" where
  "digit_char d = ''0123456789'' ! d"

fun string_of_nat :: "nat \<Rightarrow> string" where
  "string_of_nat n =
     (if n < 10 then [digit_char n] else string_of_nat (n div 10) @ [digit_char (n mod 10)])"

declare string_of_nat.simps [simp del]

subsection \<open>The open-wa client\<close>

text \<open>A chat as \<^verbatim>\<open>getAllChats\<close> returns it; \<open>participants\<close> is the length of
  \<^verbatim>\<open>groupMetadata?.participants\<close> where that exists.\<close>

record chat =
  chat_name :: string
  chat_id :: string
  isGroup :: bool
  participants :: "nat option"

datatype button = Button (button_id: string) (button_text: json)

datatype row = Row (rowId: string) (row_title: json)

datatype list_section = Section (section_title: string) (section_rows: "row list")

text \<open>The calls the handlers make on the client, with their arguments in order.\<close>

datatype call =
    GetAllChats
  | SendText string json
  | SendPoll string json json
  | SendButtons string json "button list" string string
  | SendListMessage string "list_section list" string json string

text \<open>
  A call either returns (only \<^verbatim>\<open>getAllChats\<close> returns something the handlers read)
  or throws an error with a message.
\<close>

datatype reply = Returned "chat list" | Thrown string

type_synonym transport = "call \<Rightarrow> reply"

text \<open>The module state: \<^verbatim>\<open>let client = null; let clientReady = false;\<close>\<close>

record state =
  client :: "transport option"
  clientReady :: bool

subsection \<open>Responses\<close>

record response =
  status :: nat
  body :: json

text \<open>What one run of a handler leaves behind: the module state, the calls made on
  the client in order, and the response sent.\<close>

record outcome =
  final :: state
  calls :: "call list"
  sent :: response

text \<open>\<^verbatim>\<open>res.status(c).json({ status: 'error', message: m })\<close>\<close>

definition error_response :: "nat \<Rightarrow> string \<Rightarrow> response" where
  "error_response c m =
     \<lparr>status = c, body = JObj [(''status'', JStr ''error''), (''message'', JStr m)]\<rparr>"

text \<open>\<^verbatim>\<open>res.json(x)\<close>\<close>

definition ok_response :: "(string \<times> json) list \<Rightarrow> response" where
  "ok_response extra = \<lparr>status = 200, body = JObj ((''status'', JStr ''ok'') # extra)\<rparr>"

definition not_ready :: response where
  "not_ready = error_response 500 ''WhatsApp client not ready''"

text \<open>The message of the TypeError raised when a method the value does not have is
  called, in the engine's wording.\<close>

definition not_a_function :: "string \<Rightarrow> string" where
  "not_a_function e = e @ '' is not a function''"

text \<open>
  \<^verbatim>\<open>await client.f(...); return res.json(ok)\<close> inside \<^verbatim>\<open>try\<close>, with the
  \<^verbatim>\<open>catch\<close> that answers 500 with the error's message.
\<close>

definition invoke :: "state \<Rightarrow> transport \<Rightarrow> call \<Rightarrow> response \<Rightarrow> outcome" where
  "invoke s tr c ok =
     (case tr c of
        Returned r \<Rightarrow> \<lparr>final = s, calls = [c], sent = ok\<rparr>
      | Thrown m \<Rightarrow> \<lparr>final = s, calls = [c], sent = error_response 500 m\<rparr>)"

text \<open>A response sent without touching the client.\<close>

definition answer :: "state \<Rightarrow> response \<Rightarrow> outcome" where
  "answer s r = \<lparr>final = s, calls = [], sent = r\<rparr>"

section \<open>The handlers\<close>

text \<open>\<^verbatim>\<open>GET /status\<close>\<close>

definition get_status :: "state \<Rightarrow> outcome" where
  "get_status s = answer s (ok_response [(''ready'', JBool (clientReady s))])"

text \<open>\<^verbatim>\<open>GET /get_groups\<close>\<close>

definition members :: "chat \<Rightarrow> nat" where
  "members g = (case participants g of Some n \<Rightarrow> n | None \<Rightarrow> 0)"

definition group_entry :: "chat \<Rightarrow> json" where
  "group_entry g =
     JObj [(''name'', JStr (chat_name g)), (''id'', JStr (chat_id g)),
           (''members'', JNum (int (members g)))]"

definition get_groups :: "state \<Rightarrow> outcome" where
  "get_groups s =
     (case client s of
        None \<Rightarrow> answer s not_ready
      | Some tr \<Rightarrow>
          if \<not> clientReady s then answer s not_ready
          else (case tr GetAllChats of
                  Returned chats \<Rightarrow>
                    \<lparr>final = s, calls = [GetAllChats],
                     sent = ok_response
                       [(''groups'', JArr (map group_entry (filter isGroup chats)))]\<rparr>
                | Thrown m \<Rightarrow>
                    \<lparr>final = s, calls = [GetAllChats], sent = error_response 500 m\<rparr>))"

text \<open>\<^verbatim>\<open>POST /open_whatsapp\<close>: only \<^verbatim>\<open>clientReady\<close> is tested.\<close>

definition open_whatsapp :: "state \<Rightarrow> outcome" where
  "open_whatsapp s =
     (if \<not> clientReady s then answer s not_ready else answer s (ok_response []))"

text \<open>
  \<^verbatim>\<open>POST /send_message\<close>. The chat identifier is
  \<^verbatim>\<open>`${contact.replace(/[^\d]/g, '')}@c.us`\<close>; a truthy contact that is not a string
  has no \<^verbatim>\<open>replace\<close>, and the TypeError is caught like any other error.
\<close>

definition message_chat_id :: "string \<Rightarrow> string" where
  "message_chat_id contact = strip_non_digits contact @ ''@c.us''"

definition send_message :: "state \<Rightarrow> json \<Rightarrow> outcome" where
  "send_message s req =
     (case client s of
        None \<Rightarrow> answer s not_ready
      | Some tr \<Rightarrow>
          if \<not> clientReady s then answer s not_ready
          else
            let contact = property req ''contact''; message = property req ''message'' in
            if \<not> truthy contact \<or> \<not> truthy message
            then answer s (error_response 400 ''Missing contact or message'')
            else (case contact of
                    JStr c \<Rightarrow>
                      invoke s tr (SendText (message_chat_id c) message) (ok_response [])
                  | _ \<Rightarrow>
                      answer s (error_response 500 (not_a_function ''contact.replace''))))"

text \<open>
  \<^verbatim>\<open>POST /send_poll\<close>. Line by line:
  \<^item> \<open>resolve\<close> is
    \<^verbatim>\<open>contact.includes('@') ? contact : `${contact.replace(/[^\d]/g, '')}@c.us`\<close>
    on a string;
  \<^item> \<open>poll_chat_id\<close> is the same expression followed by the receiver of
    \<^verbatim>\<open>chatId.endsWith\<close>, on any truthy contact: an array has \<^verbatim>\<open>includes\<close> but neither
    \<^verbatim>\<open>replace\<close> nor \<^verbatim>\<open>endsWith\<close>, any other value has no \<^verbatim>\<open>includes\<close>;
  \<^item> \<open>buttons_of\<close> and \<open>rows_of\<close> are the two \<^verbatim>\<open>options.map((opt, i) => ...)\<close>;
  \<^item> options that are not an array reach \<^verbatim>\<open>options.map\<close> on either side of
    \<^verbatim>\<open>options.length <= 3\<close>, and have no such method.
\<close>

definition resolve :: "string \<Rightarrow> string" where
  "resolve contact =
     (if CHR ''@'' \<in> set contact then contact else strip_non_digits contact @ ''@c.us'')"

fun poll_chat_id :: "json \<Rightarrow> string + string" where
  "poll_chat_id (JStr c) = Inr (resolve c)"
| "poll_chat_id (JArr xs) =
     (if JStr ''@'' \<in> set xs then Inl (not_a_function ''chatId.endsWith'')
      else Inl (not_a_function ''contact.replace''))"
| "poll_chat_id _ = Inl (not_a_function ''contact.includes'')"

definition opt_id :: "nat \<Rightarrow> string" where
  "opt_id i = ''opt'' @ string_of_nat (i + 1)"

definition buttons_of :: "json list \<Rightarrow> button list" where
  "buttons_of opts = map (\<lambda>(i, opt). Button (opt_id i) opt) (enumerate 0 opts)"

definition rows_of :: "json list \<Rightarrow> row list" where
  "rows_of opts = map (\<lambda>(i, opt). Row (opt_id i) opt) (enumerate 0 opts)"

definition send_poll :: "state \<Rightarrow> json \<Rightarrow> outcome" where
  "send_poll s req =
     (case client s of
        None \<Rightarrow> answer s not_ready
      | Some tr \<Rightarrow>
          if \<not> clientReady s then answer s not_ready
          else
            let contact = property req ''contact''; question = property req ''question'';
                options = property req ''options'' in
            if \<not> truthy contact \<or> \<not> truthy question \<or> \<not> truthy options
               \<or> js_length options = JNum 0
            then answer s (error_response 400 ''Missing required fields'')
            else (case poll_chat_id contact of
                    Inl m \<Rightarrow> answer s (error_response 500 m)
                  | Inr chatId \<Rightarrow>
                      if endsWith chatId ''@g.us''
                      then invoke s tr (SendPoll chatId question options)
                             (ok_response [(''method'', JStr ''poll'')])
                      else (case options of
                              JArr opts \<Rightarrow>
                                if length opts \<le> 3
                                then invoke s tr
                                       (SendButtons chatId question (buttons_of opts)
                                          ''Poll'' ''Reply by tapping a button'')
                                       (ok_response [(''method'', JStr ''buttons'')])
                                else invoke s tr
                                       (SendListMessage chatId
                                          [Section ''Options'' (rows_of opts)]
                                          ''Poll'' question ''Choose an option'')
                                       (ok_response [(''method'', JStr ''list'')])
                            | _ \<Rightarrow>
                                answer s
                                  (error_response 500 (not_a_function ''options.map'')))))"

text \<open>The request body \<^verbatim>\<open>{contact, question, options}\<close> and \<^verbatim>\<open>{contact, message}\<close>.\<close>

definition poll_request :: "json \<Rightarrow> json \<Rightarrow> json \<Rightarrow> json" where
  "poll_request contact question options =
     JObj [(''contact'', contact), (''question'', question), (''options'', options)]"

definition message_request :: "json \<Rightarrow> json \<Rightarrow> json" where
  "message_request contact message = JObj [(''contact'', contact), (''message'', message)]"

text \<open>A session whose handshake has completed, on a given client.\<close>

definition ready_on :: "transport \<Rightarrow> state" where
  "ready_on tr = \<lparr>client = Some tr, clientReady = True\<rparr>"

text \<open>A client whose every call returns.\<close>

definition obliging :: transport where
  "obliging c = Returned []"

text \<open>The description argument of a \<^verbatim>\<open>sendListMessage\<close> call.\<close>

fun description :: "call \<Rightarrow> json option" where
  "description (SendListMessage chatId sections title d action) = Some d"
| "description _ = None"

section \<open>Properties\<close>

lemma prop_poll_request [simp]:
  "property (poll_request c q os) ''contact'' = c"
  "property (poll_request c q os) ''question'' = q"
  "property (poll_request c q os) ''options'' = os"
  by (simp_all add: poll_request_def)

text \<open>A body that holds a field is an object.\<close>

lemma property_defined_parsed: "property req k \<noteq> JUndefined \<Longrightarrow> parsed_body req"
  by (cases req) simp_all

lemma prop_message_request [simp]:
  "property (message_request c m) ''contact'' = c"
  "property (message_request c m) ''message'' = m"
  by (simp_all add: message_request_def)

subsection \<open>Strings and identifiers\<close>

lemma resolve_with_at: "CHR ''@'' \<in> set d \<Longrightarrow> resolve d = d"
  by (simp add: resolve_def)

lemma resolve_without_at: "CHR ''@'' \<notin> set d \<Longrightarrow> resolve d = filter digit d @ ''@c.us''"
  by (simp add: resolve_def strip_non_digits_def)

lemma direct_suffix_not_group: "\<not> endsWith (ds @ ''@c.us'') ''@g.us''"
  by (auto simp: endsWith_def suffix_def)

lemma endsWith_mem: "endsWith s (x # xs) \<Longrightarrow> x \<in> set s"
  by (auto simp: endsWith_def suffix_def)

text \<open>Only a contact that is passed through can name a group.\<close>

lemma group_chat_iff: "endsWith (resolve c) ''@g.us'' \<longleftrightarrow> endsWith c ''@g.us''"
proof (cases "CHR ''@'' \<in> set c")
  case True
  then show ?thesis by (simp add: resolve_with_at)
next
  case False
  then have "\<not> endsWith c ''@g.us''" using endsWith_mem by blast
  with False show ?thesis by (simp add: resolve_without_at direct_suffix_not_group)
qed

lemma filter_digit_suffix: "filter digit ''@c.us'' = []"
  by (simp add: digit_def)

lemma length_buttons_of [simp]: "length (buttons_of opts) = length opts"
  by (simp add: buttons_of_def)

lemma nth_buttons_of:
  "i < length opts \<Longrightarrow> buttons_of opts ! i = Button (''opt'' @ string_of_nat (i + 1)) (opts ! i)"
  by (simp add: buttons_of_def opt_id_def nth_enumerate_eq)

lemma length_rows_of [simp]: "length (rows_of opts) = length opts"
  by (simp add: rows_of_def)

lemma nth_rows_of:
  "i < length opts \<Longrightarrow> rows_of opts ! i = Row (''opt'' @ string_of_nat (i + 1)) (opts ! i)"
  by (simp add: rows_of_def opt_id_def nth_enumerate_eq)

subsection \<open>One call, then the answer\<close>

lemma calls_invoke [simp]: "calls (invoke s tr c ok) = [c]"
  by (simp add: invoke_def split: reply.split)

lemma final_invoke [simp]: "final (invoke s tr c ok) = s"
  by (simp add: invoke_def split: reply.split)

lemma sent_invoke_Returned: "tr c = Returned r \<Longrightarrow> sent (invoke s tr c ok) = ok"
  by (simp add: invoke_def)

lemma sent_invoke_Thrown: "tr c = Thrown m \<Longrightarrow> sent (invoke s tr c ok) = error_response 500 m"
  by (simp add: invoke_def)

lemma calls_answer [simp]: "calls (answer s r) = []"
  by (simp add: answer_def)

lemma sent_answer [simp]: "sent (answer s r) = r"
  by (simp add: answer_def)

lemma final_answer [simp]: "final (answer s r) = s"
  by (simp add: answer_def)

text \<open>A well-formed poll request on a ready session, past validation and
  identifier resolution: what is left is the choice of the primitive.\<close>

lemma send_poll_ready:
  assumes "clientReady s" "client s = Some tr"
    and "property req ''contact'' = JStr contact" "contact \<noteq> []"
    and "property req ''question'' = question" "truthy question"
    and "property req ''options'' = JArr opts" "opts \<noteq> []"
  shows "send_poll s req =
     (if endsWith (resolve contact) ''@g.us''
      then invoke s tr (SendPoll (resolve contact) question (JArr opts))
             (ok_response [(''method'', JStr ''poll'')])
      else if length opts \<le> 3
      then invoke s tr
             (SendButtons (resolve contact) question (buttons_of opts)
                ''Poll'' ''Reply by tapping a button'')
             (ok_response [(''method'', JStr ''buttons'')])
      else invoke s tr
             (SendListMessage (resolve contact) [Section ''Options'' (rows_of opts)]
                ''Poll'' question ''Choose an option'')
             (ok_response [(''method'', JStr ''list'')]))"
  using assms by (simp add: send_poll_def)

lemma send_message_ready:
  assumes "clientReady s" "client s = Some tr"
    and "property req ''contact'' = JStr contact" "contact \<noteq> []"
    and "property req ''message'' = message" "truthy message"
  shows "send_message s req =
     invoke s tr (SendText (filter digit contact @ ''@c.us'') message) (ok_response [])"
  using assms by (simp add: send_message_def message_chat_id_def strip_non_digits_def)

lemma invoke_Thrown:
  "tr c = Thrown m \<Longrightarrow>
   invoke s tr c ok = \<lparr>final = s, calls = [c], sent = error_response 500 m\<rparr>"
  by (simp add: invoke_def)

text \<open>Every path through \<^verbatim>\<open>/send_poll\<close> either answers without touching the client or
  makes one call and answers from its result.\<close>

lemma send_poll_shape:
  "(\<exists>r. send_poll s req = answer s r)
   \<or> (\<exists>tr c ok. client s = Some tr \<and> send_poll s req = invoke s tr c ok)"
proof (cases "client s")
  case None
  then show ?thesis by (auto simp: send_poll_def)
next
  case (Some tr)
  show ?thesis
  proof (cases "poll_chat_id (property req ''contact'')")
    case (Inl m)
    with Some show ?thesis by (auto simp: send_poll_def Let_def)
  next
    case (Inr chatId)
    show ?thesis
    proof (cases "property req ''options''")
      case (JArr opts)
      with Some Inr show ?thesis by (auto simp: send_poll_def Let_def)
    qed (use Some Inr in \<open>auto simp: send_poll_def Let_def\<close>)
  qed
qed

text \<open>Stripping leaves a contact as it is exactly when it is digits followed by
  \<^verbatim>\<open>@c.us\<close>.\<close>

lemma stripped_is_same_iff:
  "(filter digit d @ ''@c.us'' = d) = (\<exists>ds. (\<forall>c \<in> set ds. digit c) \<and> d = ds @ ''@c.us'')"
proof
  assume "filter digit d @ ''@c.us'' = d"
  then have "(\<forall>c \<in> set (filter digit d). digit c) \<and> d = filter digit d @ ''@c.us''"
    by simp
  then show "\<exists>ds. (\<forall>c \<in> set ds. digit c) \<and> d = ds @ ''@c.us''"
    by blast
next
  assume "\<exists>ds. (\<forall>c \<in> set ds. digit c) \<and> d = ds @ ''@c.us''"
  then obtain ds where ds: "\<forall>c \<in> set ds. digit c" "d = ds @ ''@c.us''"
    by blast
  from ds(1) have "filter digit ds = ds"
    by (simp add: filter_id_conv)
  moreover have "filter digit d = filter digit ds @ filter digit ''@c.us''"
    by (simp only: ds(2) filter_append)
  ultimately have "filter digit d = ds"
    by (simp only: filter_digit_suffix append_Nil2)
  with ds(2) show "filter digit d @ ''@c.us'' = d"
    by (simp only:)
qed

section \<open>The claims\<close>

text \<open>
  C1. Every recipient descriptor that contains \<^verbatim>\<open>@\<close> is passed through unchanged by
  every operation that turns a contact into a chat identifier. \<^verbatim>\<open>/send_poll\<close> does so
  (\<open>resolve_with_at\<close>); \<^verbatim>\<open>/send_message\<close> does not: on a ready session the group
  identifier \<^verbatim>\<open>31612345678-1609459200@g.us\<close> is sent to as
  \<^verbatim>\<open>316123456781609459200@c.us\<close>, while the same contact in a poll request reaches
  the client unchanged.
\<close>

theorem send_message_rewrites_group_identifier:
  "calls (send_message (ready_on obliging)
            (message_request (JStr ''31612345678-1609459200@g.us'') (JStr ''Hello'')))
     = [SendText ''316123456781609459200@c.us'' (JStr ''Hello'')]
   \<and> calls (send_poll (ready_on obliging)
            (poll_request (JStr ''31612345678-1609459200@g.us'') (JStr ''Pizza?'')
               (JArr [JStr ''Yes'', JStr ''No''])))
     = [SendPoll ''31612345678-1609459200@g.us'' (JStr ''Pizza?'')
          (JArr [JStr ''Yes'', JStr ''No''])]"
  by (simp add: send_message_def send_poll_def ready_on_def message_chat_id_def
      strip_non_digits_def digit_def resolve_def endsWith_def suffix_to_prefix)

text \<open>So the identifier the caller supplied is not the one the client is given.\<close>

theorem send_message_rewrites_group_identifier_witness:
  "calls (send_message (ready_on obliging)
            (message_request (JStr ''31612345678-1609459200@g.us'') (JStr ''Hello'')))
     \<noteq> [SendText ''31612345678-1609459200@g.us'' (JStr ''Hello'')]"
  using send_message_rewrites_group_identifier by simp

text \<open>
  C2. The choice of the poll primitive is a table over the kind of chat and the number
  of options. For a well-formed request on a ready session (a non-empty contact string, a
  truthy question, a non-empty option array):
  \<^item> a chat identifier ending in \<^verbatim>\<open>@g.us\<close>: \<^verbatim>\<open>sendPoll\<close> is the one call made, whatever
    the number of options, and when it returns the answer carries method \<^verbatim>\<open>poll\<close>;
  \<^item> any other chat identifier and at most three options: \<^verbatim>\<open>sendButtons\<close>, method
    \<^verbatim>\<open>buttons\<close>;
  \<^item> any other chat identifier and more than three options: \<^verbatim>\<open>sendListMessage\<close>, method
    \<^verbatim>\<open>list\<close>.
\<close>

theorem poll_decision_table:
  assumes "clientReady s" "client s = Some tr"
    and "property req ''contact'' = JStr contact" "contact \<noteq> []"
    and "property req ''question'' = question" "truthy question"
    and "property req ''options'' = JArr opts" "opts \<noteq> []"
  shows "(endsWith (resolve contact) ''@g.us'' \<longrightarrow>
            calls (send_poll s req) = [SendPoll (resolve contact) question (JArr opts)]
          \<and> ((\<exists>r. tr (SendPoll (resolve contact) question (JArr opts)) = Returned r) \<longrightarrow>
               sent (send_poll s req)
                 = \<lparr>status = 200,
                    body = JObj [(''status'', JStr ''ok''), (''method'', JStr ''poll'')]\<rparr>))
       \<and> (\<not> endsWith (resolve contact) ''@g.us'' \<and> length opts \<le> 3 \<longrightarrow>
            calls (send_poll s req)
              = [SendButtons (resolve contact) question (buttons_of opts)
                   ''Poll'' ''Reply by tapping a button'']
          \<and> ((\<exists>r. tr (SendButtons (resolve contact) question (buttons_of opts)
                        ''Poll'' ''Reply by tapping a button'') = Returned r) \<longrightarrow>
               sent (send_poll s req)
                 = \<lparr>status = 200,
                    body = JObj [(''status'', JStr ''ok''), (''method'', JStr ''buttons'')]\<rparr>))
       \<and> (\<not> endsWith (resolve contact) ''@g.us'' \<and> 3 < length opts \<longrightarrow>
            calls (send_poll s req)
              = [SendListMessage (resolve contact) [Section ''Options'' (rows_of opts)]
                   ''Poll'' question ''Choose an option'']
          \<and> ((\<exists>r. tr (SendListMessage (resolve contact) [Section ''Options'' (rows_of opts)]
                        ''Poll'' question ''Choose an option'') = Returned r) \<longrightarrow>
               sent (send_poll s req)
                 = \<lparr>status = 200,
                    body = JObj [(''status'', JStr ''ok''), (''method'', JStr ''list'')]\<rparr>))"
  unfolding send_poll_ready [OF assms]
  by (auto simp: sent_invoke_Returned ok_response_def)

text \<open>One option to a group, then three and four options to a direct chat.\<close>

theorem poll_decision_table_witness:
  "sent (send_poll (ready_on obliging)
       (poll_request (JStr ''31612345678-1609459200@g.us'') (JStr ''Pizza?'')
          (JArr [JStr ''Yes''])))
     = \<lparr>status = 200, body = JObj [(''status'', JStr ''ok''), (''method'', JStr ''poll'')]\<rparr>
   \<and> sent (send_poll (ready_on obliging)
       (poll_request (JStr ''+31 6 12345678'') (JStr ''Pizza?'')
          (JArr [JStr ''A'', JStr ''B'', JStr ''C''])))
     = \<lparr>status = 200, body = JObj [(''status'', JStr ''ok''), (''method'', JStr ''buttons'')]\<rparr>
   \<and> sent (send_poll (ready_on obliging)
       (poll_request (JStr ''+31 6 12345678'') (JStr ''Pizza?'')
          (JArr [JStr ''A'', JStr ''B'', JStr ''C'', JStr ''D''])))
     = \<lparr>status = 200, body = JObj [(''status'', JStr ''ok''), (''method'', JStr ''list'')]\<rparr>"
  using
    poll_decision_table [of "ready_on obliging" obliging
      "poll_request (JStr ''31612345678-1609459200@g.us'') (JStr ''Pizza?'') (JArr [JStr ''Yes''])"
      "''31612345678-1609459200@g.us''" "JStr ''Pizza?''" "[JStr ''Yes'']"]
    poll_decision_table [of "ready_on obliging" obliging
      "poll_request (JStr ''+31 6 12345678'') (JStr ''Pizza?'')
          (JArr [JStr ''A'', JStr ''B'', JStr ''C''])"
      "''+31 6 12345678''" "JStr ''Pizza?''" "[JStr ''A'', JStr ''B'', JStr ''C'']"]
    poll_decision_table [of "ready_on obliging" obliging
      "poll_request (JStr ''+31 6 12345678'') (JStr ''Pizza?'')
          (JArr [JStr ''A'', JStr ''B'', JStr ''C'', JStr ''D''])"
      "''+31 6 12345678''" "JStr ''Pizza?''" "[JStr ''A'', JStr ''B'', JStr ''C'', JStr ''D'']"]
  by (simp add: ready_on_def obliging_def resolve_def strip_non_digits_def digit_def
      endsWith_def suffix_to_prefix)

text \<open>
  C3. While \<^verbatim>\<open>clientReady\<close> is false, each of \<^verbatim>\<open>/send_message\<close>, \<^verbatim>\<open>/send_poll\<close>,
  \<^verbatim>\<open>/get_groups\<close> and \<^verbatim>\<open>/open_whatsapp\<close> answers 500 with the fixed message
  \<^verbatim>\<open>WhatsApp client not ready\<close>, whatever the request, and makes no call on the client.
\<close>

theorem not_ready_rejected:
  assumes "\<not> clientReady s"
  shows "send_message s req
           = \<lparr>final = s, calls = [],
              sent = \<lparr>status = 500,
                       body = JObj [(''status'', JStr ''error''),
                                    (''message'', JStr ''WhatsApp client not ready'')]\<rparr>\<rparr>
       \<and> send_poll s req
           = \<lparr>final = s, calls = [],
              sent = \<lparr>status = 500,
                       body = JObj [(''status'', JStr ''error''),
                                    (''message'', JStr ''WhatsApp client not ready'')]\<rparr>\<rparr>
       \<and> get_groups s
           = \<lparr>final = s, calls = [],
              sent = \<lparr>status = 500,
                       body = JObj [(''status'', JStr ''error''),
                                    (''message'', JStr ''WhatsApp client not ready'')]\<rparr>\<rparr>
       \<and> open_whatsapp s
           = \<lparr>final = s, calls = [],
              sent = \<lparr>status = 500,
                       body = JObj [(''status'', JStr ''error''),
                                    (''message'', JStr ''WhatsApp client not ready'')]\<rparr>\<rparr>"
  using assms
  by (simp add: send_message_def send_poll_def get_groups_def open_whatsapp_def answer_def
      not_ready_def error_response_def split: option.split)

theorem not_ready_rejected_witness:
  "\<not> clientReady \<lparr>client = Some obliging, clientReady = False\<rparr>
   \<and> calls (send_poll \<lparr>client = Some obliging, clientReady = False\<rparr>
        (poll_request (JStr ''31612345678'') (JStr ''Pizza?'')
           (JArr [JStr ''Yes'', JStr ''No'']))) = []
   \<and> status (sent (send_message \<lparr>client = Some obliging, clientReady = False\<rparr>
        (message_request (JStr ''31612345678'') (JStr ''Hello'')))) = 500"
  using not_ready_rejected [of "\<lparr>client = Some obliging, clientReady = False\<rparr>"
      "poll_request (JStr ''31612345678'') (JStr ''Pizza?'') (JArr [JStr ''Yes'', JStr ''No''])"]
    not_ready_rejected [of "\<lparr>client = Some obliging, clientReady = False\<rparr>"
      "message_request (JStr ''31612345678'') (JStr ''Hello'')"]
  by simp

text \<open>
  C4. A descriptor without \<^verbatim>\<open>@\<close> resolves to its digits, in order, followed by
  \<^verbatim>\<open>@c.us\<close>, in the poll handler and in the message handler alike; the result ends
  with \<^verbatim>\<open>@c.us\<close>; \<^verbatim>\<open>+31 6 87758933\<close> resolves to \<^verbatim>\<open>31687758933@c.us\<close>; a
  descriptor without any digit resolves to the bare \<^verbatim>\<open>@c.us\<close>, and a message to such a
  (non-empty) contact is handed to the client under that identifier, unvalidated.
\<close>

theorem resolve_direct_number:
  assumes "CHR ''@'' \<notin> set d"
  shows "resolve d = filter digit d @ ''@c.us''
       \<and> message_chat_id d = filter digit d @ ''@c.us''
       \<and> endsWith (resolve d) ''@c.us''
       \<and> resolve ''+31 6 87758933'' = ''31687758933@c.us''
       \<and> ((\<forall>c \<in> set d. \<not> digit c) \<longrightarrow> resolve d = ''@c.us'')
       \<and> ((\<forall>c \<in> set d. \<not> digit c) \<and> d \<noteq> [] \<and> clientReady s \<and> client s = Some tr
            \<and> property req ''contact'' = JStr d
            \<and> property req ''message'' = message \<and> truthy message \<longrightarrow>
            calls (send_message s req) = [SendText ''@c.us'' message])"
proof -
  have r: "resolve d = filter digit d @ ''@c.us''"
    using assms by (rule resolve_without_at)
  have m: "message_chat_id d = filter digit d @ ''@c.us''"
    by (simp add: message_chat_id_def strip_non_digits_def)
  have e: "endsWith (resolve d) ''@c.us''"
    by (simp add: r endsWith_def suffix_def)
  have x: "resolve ''+31 6 87758933'' = ''31687758933@c.us''"
    by (simp add: resolve_def strip_non_digits_def digit_def)
  have n: "filter digit d = []" if "\<forall>c \<in> set d. \<not> digit c"
    using that by (simp add: filter_empty_conv)
  have h: "calls (send_message s req) = [SendText ''@c.us'' message]"
    if "\<forall>c \<in> set d. \<not> digit c" "d \<noteq> []" "clientReady s" "client s = Some tr"
      "property req ''contact'' = JStr d" "property req ''message'' = message" "truthy message"
    using that by (simp add: send_message_ready n)
  show ?thesis
    using r m e x n h by simp
qed

theorem resolve_direct_number_witness:
  "CHR ''@'' \<notin> set ''(020) abc''
   \<and> resolve ''(020) abc'' = ''020@c.us''
   \<and> resolve ''Alice'' = ''@c.us''
   \<and> calls (send_message (ready_on obliging) (message_request (JStr ''Alice'') (JStr ''Hello'')))
        = [SendText ''@c.us'' (JStr ''Hello'')]"
  using resolve_direct_number [of "''(020) abc''"]
    resolve_direct_number [of "''Alice''" "ready_on obliging" obliging
      "message_request (JStr ''Alice'') (JStr ''Hello'')" "JStr ''Hello''"]
  by (simp add: digit_def ready_on_def)

text \<open>
  C5. For a direct chat and one to three options the one call is \<^verbatim>\<open>sendButtons\<close> with
  the chat identifier, the question, one button per option (the button at index \<open>i\<close>
  has id \<^verbatim>\<open>opt\<close> followed by the decimal \<open>i + 1\<close>, and the option as its text), the
  title \<^verbatim>\<open>Poll\<close> and the footer \<^verbatim>\<open>Reply by tapping a button\<close>. End to end: contact
  \<^verbatim>\<open>31612345678\<close>, question \<^verbatim>\<open>Pizza?\<close>, options \<^verbatim>\<open>Yes\<close> and \<^verbatim>\<open>No\<close> on a ready
  session whose client returns give exactly the call
  \<^verbatim>\<open>sendButtons("31612345678@c.us", "Pizza?", [{id:"opt1",text:"Yes"}, {id:"opt2",text:"No"}], "Poll", "Reply by tapping a button")\<close>
  and the answer \<^verbatim>\<open>{"status":"ok","method":"buttons"}\<close>.
\<close>

theorem button_fallback:
  assumes "clientReady s" "client s = Some tr"
    and "property req ''contact'' = JStr contact" "contact \<noteq> []"
    and "property req ''question'' = question" "truthy question"
    and "property req ''options'' = JArr opts" "1 \<le> length opts" "length opts \<le> 3"
    and "\<not> endsWith (resolve contact) ''@g.us''"
  shows "(\<exists>bs. calls (send_poll s req)
                 = [SendButtons (resolve contact) question bs ''Poll'' ''Reply by tapping a button'']
             \<and> length bs = length opts
             \<and> (\<forall>i < length opts.
                   bs ! i = Button (''opt'' @ string_of_nat (i + 1)) (opts ! i)))
       \<and> string_of_nat 1 = ''1'' \<and> string_of_nat 2 = ''2'' \<and> string_of_nat 3 = ''3''
       \<and> (\<forall>t. (\<exists>r. t (SendButtons ''31612345678@c.us'' (JStr ''Pizza?'')
                        [Button ''opt1'' (JStr ''Yes''), Button ''opt2'' (JStr ''No'')]
                        ''Poll'' ''Reply by tapping a button'') = Returned r) \<longrightarrow>
              send_poll (ready_on t)
                (poll_request (JStr ''31612345678'') (JStr ''Pizza?'')
                   (JArr [JStr ''Yes'', JStr ''No'']))
              = \<lparr>final = ready_on t,
                 calls = [SendButtons ''31612345678@c.us'' (JStr ''Pizza?'')
                            [Button ''opt1'' (JStr ''Yes''), Button ''opt2'' (JStr ''No'')]
                            ''Poll'' ''Reply by tapping a button''],
                 sent = \<lparr>status = 200,
                          body = JObj [(''status'', JStr ''ok''),
                                       (''method'', JStr ''buttons'')]\<rparr>\<rparr>)"
proof -
  from assms have ne: "opts \<noteq> []" by auto
  have eq: "send_poll s req = invoke s tr
      (SendButtons (resolve contact) question (buttons_of opts) ''Poll'' ''Reply by tapping a button'')
      (ok_response [(''method'', JStr ''buttons'')])"
    using assms ne by (simp add: send_poll_ready [where tr = tr and contact = contact])
  have general: "\<exists>bs. calls (send_poll s req)
                 = [SendButtons (resolve contact) question bs ''Poll'' ''Reply by tapping a button'']
             \<and> length bs = length opts
             \<and> (\<forall>i < length opts.
                   bs ! i = Button (''opt'' @ string_of_nat (i + 1)) (opts ! i))"
    by (simp add: eq nth_buttons_of)
  have digits: "string_of_nat 1 = ''1''" "string_of_nat 2 = ''2''" "string_of_nat 3 = ''3''"
    by (simp_all add: string_of_nat.simps digit_char_def)
  have bs: "buttons_of [JStr ''Yes'', JStr ''No'']
      = [Button ''opt1'' (JStr ''Yes''), Button ''opt2'' (JStr ''No'')]"
    by (simp add: buttons_of_def opt_id_def string_of_nat.simps digit_char_def)
  have pizza: "send_poll (ready_on t)
        (poll_request (JStr ''31612345678'') (JStr ''Pizza?'') (JArr [JStr ''Yes'', JStr ''No'']))
      = \<lparr>final = ready_on t,
         calls = [SendButtons ''31612345678@c.us'' (JStr ''Pizza?'')
                    [Button ''opt1'' (JStr ''Yes''), Button ''opt2'' (JStr ''No'')]
                    ''Poll'' ''Reply by tapping a button''],
         sent = \<lparr>status = 200,
                  body = JObj [(''status'', JStr ''ok''), (''method'', JStr ''buttons'')]\<rparr>\<rparr>"
    if "t (SendButtons ''31612345678@c.us'' (JStr ''Pizza?'')
            [Button ''opt1'' (JStr ''Yes''), Button ''opt2'' (JStr ''No'')]
            ''Poll'' ''Reply by tapping a button'') = Returned r" for t r
    using that
    by (simp add: send_poll_def ready_on_def resolve_def strip_non_digits_def digit_def
        endsWith_def suffix_to_prefix bs invoke_def ok_response_def)
  show ?thesis
    using general digits pizza by blast
qed

theorem button_fallback_witness:
  "send_poll (ready_on obliging)
     (poll_request (JStr ''31612345678'') (JStr ''Pizza?'') (JArr [JStr ''Yes'', JStr ''No'']))
     = \<lparr>final = ready_on obliging,
        calls = [SendButtons ''31612345678@c.us'' (JStr ''Pizza?'')
                   [Button ''opt1'' (JStr ''Yes''), Button ''opt2'' (JStr ''No'')]
                   ''Poll'' ''Reply by tapping a button''],
        sent = \<lparr>status = 200,
                 body = JObj [(''status'', JStr ''ok''), (''method'', JStr ''buttons'')]\<rparr>\<rparr>
   \<and> (\<exists>bs. calls (send_poll (ready_on obliging)
               (poll_request (JStr ''+31 6 12345678'') (JStr ''Lunch?'')
                  (JArr [JStr ''A'', JStr ''B'', JStr ''C''])))
             = [SendButtons ''31612345678@c.us'' (JStr ''Lunch?'') bs
                  ''Poll'' ''Reply by tapping a button'']
           \<and> length bs = 3 \<and> bs ! 2 = Button ''opt3'' (JStr ''C''))"
proof -
  have r: "resolve ''+31 6 12345678'' = ''31612345678@c.us''"
    by (simp add: resolve_def strip_non_digits_def digit_def)
  have g: "\<not> endsWith ''31612345678@c.us'' ''@g.us''"
    by (simp add: endsWith_def suffix_to_prefix)
  note fb = button_fallback [of "ready_on obliging" obliging
      "poll_request (JStr ''+31 6 12345678'') (JStr ''Lunch?'')
         (JArr [JStr ''A'', JStr ''B'', JStr ''C''])"
      "''+31 6 12345678''" "JStr ''Lunch?''" "[JStr ''A'', JStr ''B'', JStr ''C'']"]
  have three: "string_of_nat (2 + 1) = ''3''"
    by (simp add: string_of_nat.simps digit_char_def)
  have "obliging (SendButtons ''31612345678@c.us'' (JStr ''Pizza?'')
          [Button ''opt1'' (JStr ''Yes''), Button ''opt2'' (JStr ''No'')]
          ''Poll'' ''Reply by tapping a button'') = Returned []"
    by (simp add: obliging_def)
  with fb r g have pizza: "send_poll (ready_on obliging)
     (poll_request (JStr ''31612345678'') (JStr ''Pizza?'') (JArr [JStr ''Yes'', JStr ''No'']))
     = \<lparr>final = ready_on obliging,
        calls = [SendButtons ''31612345678@c.us'' (JStr ''Pizza?'')
                   [Button ''opt1'' (JStr ''Yes''), Button ''opt2'' (JStr ''No'')]
                   ''Poll'' ''Reply by tapping a button''],
        sent = \<lparr>status = 200,
                 body = JObj [(''status'', JStr ''ok''), (''method'', JStr ''buttons'')]\<rparr>\<rparr>"
    by (simp add: ready_on_def)
  from fb r g obtain bs where bs:
    "calls (send_poll (ready_on obliging)
               (poll_request (JStr ''+31 6 12345678'') (JStr ''Lunch?'')
                  (JArr [JStr ''A'', JStr ''B'', JStr ''C''])))
       = [SendButtons ''31612345678@c.us'' (JStr ''Lunch?'') bs
            ''Poll'' ''Reply by tapping a button'']"
    "length bs = 3"
    "\<forall>i < 3. bs ! i = Button (''opt'' @ string_of_nat (i + 1)) ([JStr ''A'', JStr ''B'', JStr ''C''] ! i)"
    by (auto simp: ready_on_def)
  have "(2::nat) < 3"
    by simp
  with bs(3) have "bs ! 2 = Button (''opt'' @ string_of_nat (2 + 1)) ([JStr ''A'', JStr ''B'', JStr ''C''] ! 2)"
    by blast
  then have "bs ! 2 = Button ''opt3'' (JStr ''C'')"
    by (simp only: three) simp
  with bs(1,2) pizza show ?thesis
    by blast
qed

text \<open>
  C6, as the handler has it. For a direct chat and more than three options the one call
  is \<^verbatim>\<open>sendListMessage\<close> with the chat identifier, a single section titled
  \<^verbatim>\<open>Options\<close> holding one row per option (the row at index \<open>i\<close> has rowId \<^verbatim>\<open>opt\<close>
  followed by the decimal \<open>i + 1\<close>, and the option as its title), the fixed title
  \<^verbatim>\<open>Poll\<close>, the request's question as the description, and the fixed action text
  \<^verbatim>\<open>Choose an option\<close>.
\<close>

theorem list_fallback:
  assumes "clientReady s" "client s = Some tr"
    and "property req ''contact'' = JStr contact" "contact \<noteq> []"
    and "property req ''question'' = question" "truthy question"
    and "property req ''options'' = JArr opts" "3 < length opts"
    and "\<not> endsWith (resolve contact) ''@g.us''"
  shows "\<exists>rs. calls (send_poll s req)
                 = [SendListMessage (resolve contact) [Section ''Options'' rs]
                      ''Poll'' question ''Choose an option'']
             \<and> length rs = length opts
             \<and> (\<forall>i < length opts. rs ! i = Row (''opt'' @ string_of_nat (i + 1)) (opts ! i))"
proof -
  from assms have ne: "opts \<noteq> []" by auto
  have eq: "send_poll s req = invoke s tr
      (SendListMessage (resolve contact) [Section ''Options'' (rows_of opts)]
         ''Poll'' question ''Choose an option'')
      (ok_response [(''method'', JStr ''list'')])"
    using assms ne by (simp add: send_poll_ready [where tr = tr and contact = contact])
  show ?thesis
    by (simp add: eq nth_rows_of)
qed

theorem list_fallback_witness:
  "\<exists>rs. calls (send_poll (ready_on obliging)
       (poll_request (JStr ''31612345678'') (JStr ''Pizza?'')
          (JArr [JStr ''A'', JStr ''B'', JStr ''C'', JStr ''D''])))
     = [SendListMessage ''31612345678@c.us'' [Section ''Options'' rs]
          ''Poll'' (JStr ''Pizza?'') ''Choose an option'']
     \<and> length rs = 4 \<and> rs ! 3 = Row ''opt4'' (JStr ''D'')"
  using list_fallback [of "ready_on obliging" obliging
      "poll_request (JStr ''31612345678'') (JStr ''Pizza?'')
          (JArr [JStr ''A'', JStr ''B'', JStr ''C'', JStr ''D''])"
      "''31612345678''" "JStr ''Pizza?''" "[JStr ''A'', JStr ''B'', JStr ''C'', JStr ''D'']"]
  by (auto simp: ready_on_def resolve_def strip_non_digits_def digit_def
      endsWith_def suffix_to_prefix string_of_nat.simps digit_char_def)

text \<open>
  The description is not a fixed string: two requests that differ in their question
  differ in the description handed to \<^verbatim>\<open>sendListMessage\<close>.
\<close>

theorem list_description_varies:
  "calls (send_poll (ready_on obliging)
       (poll_request (JStr ''31612345678'') (JStr ''Pizza?'')
          (JArr [JStr ''A'', JStr ''B'', JStr ''C'', JStr ''D''])))
     = [SendListMessage ''31612345678@c.us''
          [Section ''Options''
             [Row ''opt1'' (JStr ''A''), Row ''opt2'' (JStr ''B''),
              Row ''opt3'' (JStr ''C''), Row ''opt4'' (JStr ''D'')]]
          ''Poll'' (JStr ''Pizza?'') ''Choose an option'']
   \<and> calls (send_poll (ready_on obliging)
       (poll_request (JStr ''31612345678'') (JStr ''Pasta?'')
          (JArr [JStr ''A'', JStr ''B'', JStr ''C'', JStr ''D''])))
     = [SendListMessage ''31612345678@c.us''
          [Section ''Options''
             [Row ''opt1'' (JStr ''A''), Row ''opt2'' (JStr ''B''),
              Row ''opt3'' (JStr ''C''), Row ''opt4'' (JStr ''D'')]]
          ''Poll'' (JStr ''Pasta?'') ''Choose an option'']
   \<and> map description (calls (send_poll (ready_on obliging)
       (poll_request (JStr ''31612345678'') (JStr ''Pizza?'')
          (JArr [JStr ''A'', JStr ''B'', JStr ''C'', JStr ''D'']))))
     \<noteq> map description (calls (send_poll (ready_on obliging)
       (poll_request (JStr ''31612345678'') (JStr ''Pasta?'')
          (JArr [JStr ''A'', JStr ''B'', JStr ''C'', JStr ''D'']))))"
  by (simp add: send_poll_def ready_on_def resolve_def strip_non_digits_def digit_def
      endsWith_def suffix_to_prefix rows_of_def opt_id_def string_of_nat.simps digit_char_def)

text \<open>
  C7. A poll request makes at most one call on the client. When that call throws, no
  other primitive is tried: the call list is that one call and the answer is 500 with
  the error's message as it was thrown.
\<close>

theorem poll_single_call:
  "length (calls (send_poll s req)) \<le> 1
   \<and> (\<forall>tr c m. client s = Some tr \<and> calls (send_poll s req) = [c] \<and> tr c = Thrown m \<longrightarrow>
         send_poll s req
           = \<lparr>final = s, calls = [c],
              sent = \<lparr>status = 500,
                       body = JObj [(''status'', JStr ''error''), (''message'', JStr m)]\<rparr>\<rparr>)"
  using send_poll_shape [of s req]
proof (elim disjE exE conjE)
  fix r
  assume "send_poll s req = answer s r"
  then show ?thesis by simp
next
  fix tr c ok
  assume "client s = Some tr" "send_poll s req = invoke s tr c ok"
  then show ?thesis by (auto simp: invoke_Thrown error_response_def)
qed

theorem poll_single_call_witness:
  "send_poll (ready_on (\<lambda>c. Thrown ''Session closed''))
      (poll_request (JStr ''31612345678'') (JStr ''Pizza?'') (JArr [JStr ''Yes'', JStr ''No'']))
     = \<lparr>final = ready_on (\<lambda>c. Thrown ''Session closed''),
        calls = [SendButtons ''31612345678@c.us'' (JStr ''Pizza?'')
                   [Button ''opt1'' (JStr ''Yes''), Button ''opt2'' (JStr ''No'')]
                   ''Poll'' ''Reply by tapping a button''],
        sent = \<lparr>status = 500,
                 body = JObj [(''status'', JStr ''error''),
                              (''message'', JStr ''Session closed'')]\<rparr>\<rparr>"
proof -
  let ?tr = "\<lambda>c::call. Thrown ''Session closed''"
  let ?req = "poll_request (JStr ''31612345678'') (JStr ''Pizza?'') (JArr [JStr ''Yes'', JStr ''No''])"
  let ?c = "SendButtons ''31612345678@c.us'' (JStr ''Pizza?'')
                   [Button ''opt1'' (JStr ''Yes''), Button ''opt2'' (JStr ''No'')]
                   ''Poll'' ''Reply by tapping a button''"
  have c: "calls (send_poll (ready_on ?tr) ?req) = [?c]"
    by (simp add: send_poll_def ready_on_def resolve_def strip_non_digits_def digit_def
        endsWith_def suffix_to_prefix buttons_of_def opt_id_def string_of_nat.simps digit_char_def)
  have "client (ready_on ?tr) = Some ?tr"
    by (simp add: ready_on_def)
  with c poll_single_call [of "ready_on ?tr" ?req] show ?thesis
    by simp
qed

text \<open>
  C8, as the handlers have it. On a ready session and for a request whose body was
  parsed (an object or an array), a poll request whose contact, question or options is
  missing, or whose options are the empty array, is answered 400
  \<^verbatim>\<open>Missing required fields\<close>; a message request whose contact or message is missing
  is answered 400 \<^verbatim>\<open>Missing contact or message\<close>. In both cases no call is made on the
  client and the module state is as before.
\<close>

theorem validation_rejected:
  assumes "clientReady s" "client s = Some tr" "parsed_body req"
  shows "(property req ''contact'' = JUndefined \<or> property req ''question'' = JUndefined
          \<or> property req ''options'' = JUndefined \<or> property req ''options'' = JArr [] \<longrightarrow>
            send_poll s req
              = \<lparr>final = s, calls = [],
                 sent = \<lparr>status = 400,
                          body = JObj [(''status'', JStr ''error''),
                                       (''message'', JStr ''Missing required fields'')]\<rparr>\<rparr>)
       \<and> (property req ''contact'' = JUndefined \<or> property req ''message'' = JUndefined \<longrightarrow>
            send_message s req
              = \<lparr>final = s, calls = [],
                 sent = \<lparr>status = 400,
                          body = JObj [(''status'', JStr ''error''),
                                       (''message'', JStr ''Missing contact or message'')]\<rparr>\<rparr>)"
  using assms(1,2)
  by (auto simp: send_poll_def send_message_def Let_def answer_def error_response_def)

text \<open>A poll request without options, one with no options in the list, a message
  request without a message, and an array as the body.\<close>

theorem validation_rejected_witness:
  "parsed_body (JObj [(''contact'', JStr ''31612345678''), (''question'', JStr ''Pizza?'')])
   \<and> send_poll (ready_on obliging)
       (JObj [(''contact'', JStr ''31612345678''), (''question'', JStr ''Pizza?'')])
     = \<lparr>final = ready_on obliging, calls = [],
        sent = \<lparr>status = 400,
                 body = JObj [(''status'', JStr ''error''),
                              (''message'', JStr ''Missing required fields'')]\<rparr>\<rparr>
   \<and> send_poll (ready_on obliging)
       (poll_request (JStr ''31612345678'') (JStr ''Pizza?'') (JArr []))
     = \<lparr>final = ready_on obliging, calls = [],
        sent = \<lparr>status = 400,
                 body = JObj [(''status'', JStr ''error''),
                              (''message'', JStr ''Missing required fields'')]\<rparr>\<rparr>
   \<and> send_message (ready_on obliging) (JObj [(''contact'', JStr ''31612345678'')])
     = \<lparr>final = ready_on obliging, calls = [],
        sent = \<lparr>status = 400,
                 body = JObj [(''status'', JStr ''error''),
                              (''message'', JStr ''Missing contact or message'')]\<rparr>\<rparr>
   \<and> send_message (ready_on obliging) (JArr [JStr ''31612345678'', JStr ''Hello''])
     = \<lparr>final = ready_on obliging, calls = [],
        sent = \<lparr>status = 400,
                 body = JObj [(''status'', JStr ''error''),
                              (''message'', JStr ''Missing contact or message'')]\<rparr>\<rparr>"
  using
    validation_rejected [of "ready_on obliging" obliging
      "JObj [(''contact'', JStr ''31612345678''), (''question'', JStr ''Pizza?'')]"]
    validation_rejected [of "ready_on obliging" obliging
      "poll_request (JStr ''31612345678'') (JStr ''Pizza?'') (JArr [])"]
    validation_rejected [of "ready_on obliging" obliging
      "JObj [(''contact'', JStr ''31612345678'')]"]
    validation_rejected [of "ready_on obliging" obliging
      "JArr [JStr ''31612345678'', JStr ''Hello'']"]
  by (simp add: ready_on_def poll_request_def)

text \<open>
  Without the ready session the same requests are not answered 400: the empty body,
  sent before the handshake has completed, is answered 500.
\<close>

theorem missing_fields_while_not_ready:
  "property (JObj []) ''contact'' = JUndefined
   \<and> send_poll \<lparr>client = None, clientReady = False\<rparr> (JObj [])
       = \<lparr>final = \<lparr>client = None, clientReady = False\<rparr>, calls = [],
          sent = \<lparr>status = 500,
                   body = JObj [(''status'', JStr ''error''),
                                (''message'', JStr ''WhatsApp client not ready'')]\<rparr>\<rparr>
   \<and> status (sent (send_message \<lparr>client = None, clientReady = False\<rparr> (JObj []))) \<noteq> 400"
  by (simp add: send_poll_def send_message_def answer_def not_ready_def error_response_def)

text \<open>
  C9, as the handler has it. On a ready session \<^verbatim>\<open>/send_message\<close> sends to the digits
  of the contact followed by \<^verbatim>\<open>@c.us\<close>, whether or not the contact contains \<^verbatim>\<open>@\<close>.
  For a contact that contains \<^verbatim>\<open>@\<close>, this is the identifier \<^verbatim>\<open>/send_poll\<close> computes
  exactly when the contact already is digits followed by \<^verbatim>\<open>@c.us\<close>; for every other
  such contact the two handlers compute different identifiers.
\<close>

theorem send_message_always_strips:
  assumes "clientReady s" "client s = Some tr"
    and "property req ''contact'' = JStr d" "d \<noteq> []"
    and "property req ''message'' = message" "truthy message"
  shows "calls (send_message s req) = [SendText (filter digit d @ ''@c.us'') message]
       \<and> (CHR ''@'' \<in> set d \<longrightarrow>
            (message_chat_id d = resolve d)
              = (\<exists>ds. (\<forall>c \<in> set ds. digit c) \<and> d = ds @ ''@c.us''))"
proof -
  have "calls (send_message s req) = [SendText (filter digit d @ ''@c.us'') message]"
    by (simp add: send_message_ready [OF assms])
  moreover have "(message_chat_id d = resolve d)
      = (\<exists>ds. (\<forall>c \<in> set ds. digit c) \<and> d = ds @ ''@c.us'')" if "CHR ''@'' \<in> set d"
    using that stripped_is_same_iff [of d]
    by (simp add: message_chat_id_def strip_non_digits_def resolve_with_at)
  ultimately show ?thesis by blast
qed

theorem send_message_always_strips_witness:
  "calls (send_message (ready_on obliging)
        (message_request (JStr ''31612345678-1609459200@g.us'') (JStr ''Hello'')))
     = [SendText ''316123456781609459200@c.us'' (JStr ''Hello'')]
   \<and> \<not> (\<exists>ds. (\<forall>c \<in> set ds. digit c)
            \<and> ''31612345678-1609459200@g.us'' = ds @ ''@c.us'')"
  using send_message_always_strips [of "ready_on obliging" obliging
      "message_request (JStr ''31612345678-1609459200@g.us'') (JStr ''Hello'')"
      "''31612345678-1609459200@g.us''" "JStr ''Hello''"]
  by (simp add: ready_on_def digit_def message_chat_id_def strip_non_digits_def resolve_def)

text \<open>
  A contact of the form digits followed by \<^verbatim>\<open>@c.us\<close> contains \<^verbatim>\<open>@\<close>, reaches the
  client unchanged through \<^verbatim>\<open>/send_message\<close>, and gets the same identifier from both
  handlers.
\<close>

theorem direct_identifier_left_unchanged:
  "CHR ''@'' \<in> set ''31612345678@c.us''
   \<and> calls (send_message (ready_on obliging)
        (message_request (JStr ''31612345678@c.us'') (JStr ''Hello'')))
     = [SendText ''31612345678@c.us'' (JStr ''Hello'')]
   \<and> message_chat_id ''31612345678@c.us'' = resolve ''31612345678@c.us''"
  by (simp add: send_message_def ready_on_def message_chat_id_def strip_non_digits_def
      digit_def resolve_def)

text \<open>
  C10. Readiness is tested before the body is looked at: while \<^verbatim>\<open>clientReady\<close> is
  false, \<^verbatim>\<open>/send_message\<close> and \<^verbatim>\<open>/send_poll\<close> answer 500 \<^verbatim>\<open>WhatsApp client not ready\<close>
  whatever the body holds or lacks, and an answer of 400 from either implies that
  \<^verbatim>\<open>clientReady\<close> is true and the client is set.
\<close>

theorem readiness_before_validation:
  "(\<not> clientReady s \<longrightarrow>
      sent (send_message s req)
        = \<lparr>status = 500,
           body = JObj [(''status'', JStr ''error''),
                        (''message'', JStr ''WhatsApp client not ready'')]\<rparr>
    \<and> sent (send_poll s req)
        = \<lparr>status = 500,
           body = JObj [(''status'', JStr ''error''),
                        (''message'', JStr ''WhatsApp client not ready'')]\<rparr>)
   \<and> (status (sent (send_message s req)) = 400 \<longrightarrow> clientReady s \<and> client s \<noteq> None)
   \<and> (status (sent (send_poll s req)) = 400 \<longrightarrow> clientReady s \<and> client s \<noteq> None)"
proof -
  have n: "not_ready = \<lparr>status = 500,
           body = JObj [(''status'', JStr ''error''),
                        (''message'', JStr ''WhatsApp client not ready'')]\<rparr>"
    by (simp add: not_ready_def error_response_def)
  have m1: "sent (send_message s req) = not_ready" if "\<not> clientReady s"
    using that by (simp add: send_message_def split: option.split)
  have m2: "sent (send_message s req) = not_ready" if "client s = None"
    using that by (simp add: send_message_def)
  have p1: "sent (send_poll s req) = not_ready" if "\<not> clientReady s"
    using that by (simp add: send_poll_def split: option.split)
  have p2: "sent (send_poll s req) = not_ready" if "client s = None"
    using that by (simp add: send_poll_def)
  have m: "clientReady s \<and> client s \<noteq> None" if "status (sent (send_message s req)) = 400"
  proof (rule ccontr)
    assume "\<not> (clientReady s \<and> client s \<noteq> None)"
    then have "sent (send_message s req) = not_ready"
      using m1 m2 by blast
    with that show False
      by (simp add: n)
  qed
  have p: "clientReady s \<and> client s \<noteq> None" if "status (sent (send_poll s req)) = 400"
  proof (rule ccontr)
    assume "\<not> (clientReady s \<and> client s \<noteq> None)"
    then have "sent (send_poll s req) = not_ready"
      using p1 p2 by blast
    with that show False
      by (simp add: n)
  qed
  from m1 p1 have "\<not> clientReady s \<longrightarrow>
      sent (send_message s req)
        = \<lparr>status = 500,
           body = JObj [(''status'', JStr ''error''),
                        (''message'', JStr ''WhatsApp client not ready'')]\<rparr>
    \<and> sent (send_poll s req)
        = \<lparr>status = 500,
           body = JObj [(''status'', JStr ''error''),
                        (''message'', JStr ''WhatsApp client not ready'')]\<rparr>"
    unfolding n by blast
  with m p show ?thesis
    by blast
qed

theorem readiness_before_validation_witness:
  "status (sent (send_poll \<lparr>client = None, clientReady = False\<rparr> (JObj []))) = 500
   \<and> status (sent (send_message \<lparr>client = None, clientReady = False\<rparr> (JObj []))) = 500
   \<and> status (sent (send_poll (ready_on obliging) (JObj []))) = 400
   \<and> clientReady (ready_on obliging)"
proof -
  let ?down = "\<lparr>client = None, clientReady = False\<rparr>"
  have a: "\<not> clientReady ?down"
    by simp
  have b: "status (sent (send_poll (ready_on obliging) (JObj []))) = 400"
    by (simp add: send_poll_def ready_on_def error_response_def)
  from a readiness_before_validation [of ?down "JObj []"]
  have "sent (send_message ?down (JObj []))
        = \<lparr>status = 500,
           body = JObj [(''status'', JStr ''error''),
                        (''message'', JStr ''WhatsApp client not ready'')]\<rparr>
    \<and> sent (send_poll ?down (JObj []))
        = \<lparr>status = 500,
           body = JObj [(''status'', JStr ''error''),
                        (''message'', JStr ''WhatsApp client not ready'')]\<rparr>"
    by blast
  moreover from b readiness_before_validation [of "ready_on obliging" "JObj []"]
  have "clientReady (ready_on obliging)"
    by blast
  ultimately show ?thesis
    using b by simp
qed

end
